theory Spec2Isabelle
  imports Complex_Main
begin

section \<open>Python values\<close>

text \<open>
  The two modules under verification are \<^verbatim>\<open>backend/historical_impacts.py\<close> (the historical
  comparator) and the unit helpers of \<^verbatim>\<open>backend/app.py\<close>. Both compute with Python floats.

  A Python float is modelled as a real number or one of the three special values of IEEE 754
  binary64. Arithmetic on finite values is exact, except that a result whose magnitude reaches
  the overflow threshold \<open>2^1024 - 2^970\<close> of round-to-nearest becomes an infinity, as it
  does in the interpreter. Rounding of in-range results, underflow and the sign of zero are
  not modelled. Python integers that take part in float arithmetic (the literals \<open>0\<close>,
  \<open>1\<close> and the integer energies of the catalogue) are identified with the float of the
  same value.

  The type has more values than there are floats: \<open>Finite x\<close> exists for every real \<open>x\<close>,
  also at and beyond the threshold. A statement about all values of the type covers all
  floats; where a statement needs the argument to be a float, it says that \<open>x\<close> is below the
  threshold.
\<close>

datatype py_error = ZeroDivisionError | OverflowError | ValueError | TypeError

datatype pyfloat = Finite real | PosInf | NegInf | NaN

definition float_overflow_bound :: real where
  "float_overflow_bound = 2 ^ 1024 - 2 ^ 970"

definition fl :: "real \<Rightarrow> pyfloat" where
  "fl x = (if float_overflow_bound \<le> x then PosInf
           else if x \<le> - float_overflow_bound then NegInf
           else Finite x)"

definition bind_err :: "'e + 'a \<Rightarrow> ('a \<Rightarrow> 'e + 'b) \<Rightarrow> 'e + 'b" where
  "bind_err m f = (case m of Inl err \<Rightarrow> Inl err | Inr x \<Rightarrow> f x)"

text \<open>The comparisons \<^verbatim>\<open><\<close> and \<^verbatim>\<open><=\<close>: every comparison with NaN is false.\<close>

fun flt :: "pyfloat \<Rightarrow> pyfloat \<Rightarrow> bool" where
  "flt (Finite x) (Finite y) = (x < y)"
| "flt (Finite x) PosInf = True"
| "flt (Finite x) NegInf = False"
| "flt (Finite x) NaN = False"
| "flt PosInf b = False"
| "flt NegInf (Finite y) = True"
| "flt NegInf PosInf = True"
| "flt NegInf NegInf = False"
| "flt NegInf NaN = False"
| "flt NaN b = False"

fun fle :: "pyfloat \<Rightarrow> pyfloat \<Rightarrow> bool" where
  "fle (Finite x) (Finite y) = (x \<le> y)"
| "fle (Finite x) PosInf = True"
| "fle (Finite x) NegInf = False"
| "fle (Finite x) NaN = False"
| "fle PosInf (Finite y) = False"
| "fle PosInf PosInf = True"
| "fle PosInf NegInf = False"
| "fle PosInf NaN = False"
| "fle NegInf (Finite y) = True"
| "fle NegInf PosInf = True"
| "fle NegInf NegInf = True"
| "fle NegInf NaN = False"
| "fle NaN b = False"

text \<open>Subtraction, multiplication and \<^verbatim>\<open>abs\<close> follow IEEE 754 on the special values.\<close>

fun fsub :: "pyfloat \<Rightarrow> pyfloat \<Rightarrow> pyfloat" where
  "fsub (Finite x) (Finite y) = fl (x - y)"
| "fsub (Finite x) PosInf = NegInf"
| "fsub (Finite x) NegInf = PosInf"
| "fsub (Finite x) NaN = NaN"
| "fsub PosInf (Finite y) = PosInf"
| "fsub PosInf PosInf = NaN"
| "fsub PosInf NegInf = PosInf"
| "fsub PosInf NaN = NaN"
| "fsub NegInf (Finite y) = NegInf"
| "fsub NegInf PosInf = NegInf"
| "fsub NegInf NegInf = NaN"
| "fsub NegInf NaN = NaN"
| "fsub NaN b = NaN"

fun fmul :: "pyfloat \<Rightarrow> pyfloat \<Rightarrow> pyfloat" where
  "fmul (Finite x) (Finite y) = fl (x * y)"
| "fmul (Finite x) PosInf = (if x = 0 then NaN else if 0 < x then PosInf else NegInf)"
| "fmul (Finite x) NegInf = (if x = 0 then NaN else if 0 < x then NegInf else PosInf)"
| "fmul (Finite x) NaN = NaN"
| "fmul PosInf (Finite y) = (if y = 0 then NaN else if 0 < y then PosInf else NegInf)"
| "fmul PosInf PosInf = PosInf"
| "fmul PosInf NegInf = NegInf"
| "fmul PosInf NaN = NaN"
| "fmul NegInf (Finite y) = (if y = 0 then NaN else if 0 < y then NegInf else PosInf)"
| "fmul NegInf PosInf = NegInf"
| "fmul NegInf NegInf = PosInf"
| "fmul NegInf NaN = NaN"
| "fmul NaN b = NaN"

fun fabs :: "pyfloat \<Rightarrow> pyfloat" where
  "fabs (Finite x) = Finite \<bar>x\<bar>"
| "fabs PosInf = PosInf"
| "fabs NegInf = PosInf"
| "fabs NaN = NaN"

text \<open>
  True division. Python raises \<^verbatim>\<open>ZeroDivisionError\<close> for a zero divisor whatever the
  dividend is; every other case is the IEEE 754 quotient.
\<close>

fun ieee_div :: "pyfloat \<Rightarrow> pyfloat \<Rightarrow> pyfloat" where
  "ieee_div (Finite x) (Finite y) = fl (x / y)"
| "ieee_div (Finite x) PosInf = Finite 0"
| "ieee_div (Finite x) NegInf = Finite 0"
| "ieee_div (Finite x) NaN = NaN"
| "ieee_div PosInf (Finite y) = (if 0 < y then PosInf else NegInf)"
| "ieee_div PosInf PosInf = NaN"
| "ieee_div PosInf NegInf = NaN"
| "ieee_div PosInf NaN = NaN"
| "ieee_div NegInf (Finite y) = (if 0 < y then NegInf else PosInf)"
| "ieee_div NegInf PosInf = NaN"
| "ieee_div NegInf NegInf = NaN"
| "ieee_div NegInf NaN = NaN"
| "ieee_div NaN b = NaN"

definition fdiv :: "pyfloat \<Rightarrow> pyfloat \<Rightarrow> py_error + pyfloat" where
  "fdiv a b = (if b = Finite 0 then Inl ZeroDivisionError else Inr (ieee_div a b))"

text \<open>
  \<^verbatim>\<open>int(x)\<close> truncates towards zero; it raises \<^verbatim>\<open>OverflowError\<close> on an infinity and
  \<^verbatim>\<open>ValueError\<close> on NaN.
\<close>

definition trunc_toward_zero :: "real \<Rightarrow> int" where
  "trunc_toward_zero x = (if 0 \<le> x then \<lfloor>x\<rfloor> else \<lceil>x\<rceil>)"

fun py_int :: "pyfloat \<Rightarrow> py_error + int" where
  "py_int (Finite x) = Inr (trunc_toward_zero x)"
| "py_int PosInf = Inl OverflowError"
| "py_int NegInf = Inl OverflowError"
| "py_int NaN = Inl ValueError"

section \<open>String formatting\<close>

text \<open>
  The f-strings of the comparator use four renderings: an integer in decimal, an integer with
  thousands separators (\<^verbatim>\<open>:,\<close>), a float in fixed notation with one decimal
  (\<^verbatim>\<open>:.1f\<close>) and a float as a percentage without decimals (\<^verbatim>\<open>:.0%\<close>). Fixed
  notation rounds the exact value half to even.
\<close>

function show_nat :: "nat \<Rightarrow> string" where
  "show_nat n = (if n < 10 then [''0123456789'' ! n]
                 else show_nat (n div 10) @ [''0123456789'' ! (n mod 10)])"
  by pat_completeness auto
termination
  by (relation "measure id") auto

declare show_nat.simps [simp del]

definition show_int :: "int \<Rightarrow> string" where
  "show_int i = (if i < 0 then ''-'' @ show_nat (nat (- i)) else show_nat (nat i))"

fun group_thousands :: "string \<Rightarrow> string" where
  "group_thousands (a # b # c # d # rest) = a # b # c # CHR '','' # group_thousands (d # rest)"
| "group_thousands ds = ds"

definition format_commas :: "int \<Rightarrow> string" where
  "format_commas i =
     (if i < 0 then ''-'' else '''') @ rev (group_thousands (rev (show_nat (nat \<bar>i\<bar>))))"

definition round_half_even :: "real \<Rightarrow> nat" where
  "round_half_even x =
     (let f = \<lfloor>x\<rfloor>; d = x - of_int f
      in nat (if d < 1 / 2 then f
              else if 1 / 2 < d then f + 1
              else if even f then f else f + 1))"

definition zero_pad :: "nat \<Rightarrow> string \<Rightarrow> string" where
  "zero_pad w s = replicate (w - length s) CHR ''0'' @ s"

definition format_fixed :: "nat \<Rightarrow> pyfloat \<Rightarrow> string" where
  "format_fixed p a =
     (case a of
        NaN \<Rightarrow> ''nan''
      | PosInf \<Rightarrow> ''inf''
      | NegInf \<Rightarrow> ''-inf''
      | Finite x \<Rightarrow>
          (let n = round_half_even (\<bar>x\<bar> * 10 ^ p)
           in (if x < 0 then ''-'' else '''') @ show_nat (n div 10 ^ p) @
              (if p = 0 then '''' else ''.'' @ zero_pad p (show_nat (n mod 10 ^ p)))))"

definition format_percent :: "nat \<Rightarrow> pyfloat \<Rightarrow> string" where
  "format_percent p a = format_fixed p (fmul a (Finite 100)) @ ''%''"

section \<open>The catalogue of historical impacts\<close>

text \<open>
  One catalogue entry is a dictionary with twelve keys. The key \<^verbatim>\<open>id\<close> is the field
  \<open>impact_id\<close>. Strings are byte strings in UTF-8: the emoji and the superscript two of
  \<^verbatim>\<open>km\<close> squared are written as their bytes. The numeric literals of the catalogue are
  finite, so the numeric fields are real numbers (\<open>age_years\<close> is an integer).
\<close>

record impact =
  impact_id :: string
  name :: string
  location :: string
  age_years :: int
  age_display :: string
  crater_diameter_km :: real
  energy_mt :: real
  energy_display :: string
  asteroid_diameter_km :: real
  description :: string
  effects :: string
  emoji :: string

definition chicxulub :: impact where
  "chicxulub = \<lparr> impact_id = ''chicxulub'', name = ''Chicxulub Impact'',
     location = ''Yucatan Peninsula, Mexico'', age_years = 66000000,
     age_display = ''66 million years ago'', crater_diameter_km = 150,
     energy_mt = 100000000000, energy_display = ''100 Teratons'',
     asteroid_diameter_km = 10,
     description = ''Mass extinction event that killed the dinosaurs'',
     effects = ''Global winter, 75% species extinction, mega-tsunamis'',
     emoji = [CHR 0xF0, CHR 0x9F, CHR 0xA6, CHR 0x95] \<rparr>"

definition vredefort :: impact where
  "vredefort = \<lparr> impact_id = ''vredefort'', name = ''Vredefort Crater'',
     location = ''South Africa'', age_years = 2023000000,
     age_display = ''2 billion years ago'', crater_diameter_km = 300,
     energy_mt = 500000000000, energy_display = ''500 Teratons'',
     asteroid_diameter_km = 15,
     description = ''Largest verified impact crater on Earth'',
     effects = ''Massive global devastation'',
     emoji = [CHR 0xF0, CHR 0x9F, CHR 0x92, CHR 0xAB] \<rparr>"

definition sudbury :: impact where
  "sudbury = \<lparr> impact_id = ''sudbury'', name = ''Sudbury Basin'',
     location = ''Ontario, Canada'', age_years = 1849000000,
     age_display = ''1.85 billion years ago'', crater_diameter_km = 130,
     energy_mt = 60000000000, energy_display = ''60 Teratons'',
     asteroid_diameter_km = 10,
     description = ''One of the largest impact structures on Earth'',
     effects = ''Created major nickel deposits'',
     emoji = [CHR 0xE2, CHR 0x9B, CHR 0x8F, CHR 0xEF, CHR 0xB8, CHR 0x8F] \<rparr>"

definition popigai :: impact where
  "popigai = \<lparr> impact_id = ''popigai'', name = ''Popigai Crater'',
     location = ''Siberia, Russia'', age_years = 35700000,
     age_display = ''35.7 million years ago'', crater_diameter_km = 100,
     energy_mt = 30000000000, energy_display = ''30 Teratons'',
     asteroid_diameter_km = 8,
     description = ''Fourth largest verified crater, contains impact diamonds'',
     effects = ''Massive regional destruction, diamond formation'',
     emoji = [CHR 0xF0, CHR 0x9F, CHR 0x92, CHR 0x8E] \<rparr>"

definition barringer :: impact where
  "barringer = \<lparr> impact_id = ''barringer'', name = ''Barringer Crater'',
     location = ''Arizona, USA'', age_years = 50000,
     age_display = ''50,000 years ago'', crater_diameter_km = 12 / 10,
     energy_mt = 10, energy_display = ''10 Megatons'',
     asteroid_diameter_km = 5 / 100,
     description = ''Best preserved impact crater on Earth'',
     effects = ''175m deep crater, everything within 4km destroyed'',
     emoji = [CHR 0xF0, CHR 0x9F, CHR 0x8F, CHR 0x9C, CHR 0xEF, CHR 0xB8, CHR 0x8F] \<rparr>"

definition tunguska :: impact where
  "tunguska = \<lparr> impact_id = ''tunguska'', name = ''Tunguska Event'',
     location = ''Siberia, Russia'', age_years = 116,
     age_display = ''1908'', crater_diameter_km = 0,
     energy_mt = 15, energy_display = ''10-15 Megatons'',
     asteroid_diameter_km = 6 / 100,
     description = ''Largest impact event in recorded history (airburst)'',
     effects = ''2,150 km'' @ [CHR 0xC2, CHR 0xB2] @ '' of forest flattened, no crater'',
     emoji = [CHR 0xF0, CHR 0x9F, CHR 0x92, CHR 0xA5] \<rparr>"

definition chelyabinsk :: impact where
  "chelyabinsk = \<lparr> impact_id = ''chelyabinsk'', name = ''Chelyabinsk Meteor'',
     location = ''Chelyabinsk, Russia'', age_years = 13,
     age_display = ''2013'', crater_diameter_km = 0,
     energy_mt = 5 / 10, energy_display = ''500 Kilotons'',
     asteroid_diameter_km = 2 / 100,
     description = ''Largest undetected asteroid to enter atmosphere'',
     effects = ''1,500 injuries, mostly from broken glass'',
     emoji = [CHR 0xF0, CHR 0x9F, CHR 0x8C, CHR 0xA0] \<rparr>"

definition hiroshima :: impact where
  "hiroshima = \<lparr> impact_id = ''hiroshima'', name = ''Hiroshima Bomb (Reference)'',
     location = ''Hiroshima, Japan'', age_years = 81,
     age_display = ''1945'', crater_diameter_km = 0,
     energy_mt = 15 / 1000, energy_display = ''15 Kilotons'',
     asteroid_diameter_km = 0,
     description = ''Nuclear weapon reference for energy comparison'',
     effects = ''Destroyed 13 km'' @ [CHR 0xC2, CHR 0xB2] @ '' area'',
     emoji = [CHR 0xE2, CHR 0x98, CHR 0xA2, CHR 0xEF, CHR 0xB8, CHR 0x8F] \<rparr>"

definition HISTORICAL_IMPACTS :: "impact list" where
  "HISTORICAL_IMPACTS =
     [chicxulub, vredefort, sudbury, popigai, barringer, tunguska, chelyabinsk, hiroshima]"

definition get_all_historical_impacts :: "impact list" where
  "get_all_historical_impacts = HISTORICAL_IMPACTS"

section \<open>The historical comparator\<close>

record comparison =
  closest_impact :: impact
  energy_ratio :: pyfloat
  comparison_text :: string
  hiroshima_equivalent :: pyfloat
  hiroshima_text :: string

text \<open>
  The distance of the simulated energy to one candidate, as the loop body computes it:
  \<^verbatim>\<open>ratio = energy_mt / impact['energy_mt']\<close> and then
  \<^verbatim>\<open>abs(1 - ratio) if ratio <= 1 else abs(ratio - 1)\<close>.
\<close>

definition ratio_diff :: "pyfloat \<Rightarrow> pyfloat" where
  "ratio_diff ratio =
     (if fle ratio (Finite 1) then fabs (fsub (Finite 1) ratio)
      else fabs (fsub ratio (Finite 1)))"

definition ratio_distance :: "pyfloat \<Rightarrow> real \<Rightarrow> py_error + pyfloat" where
  "ratio_distance energy candidate_energy =
     bind_err (fdiv energy (Finite candidate_energy)) (\<lambda>ratio. Inr (ratio_diff ratio))"

text \<open>The same distance as a plain value, for a candidate energy that is not zero.\<close>

definition distance_to :: "pyfloat \<Rightarrow> real \<Rightarrow> pyfloat" where
  "distance_to energy candidate_energy = ratio_diff (ieee_div energy (Finite candidate_energy))"

text \<open>
  The selection loop over the sorted catalogue. The state is the pair of the loop variables
  \<^verbatim>\<open>closest\<close> and \<^verbatim>\<open>min_ratio_diff\<close>.
\<close>

fun closest_loop ::
  "pyfloat \<Rightarrow> impact list \<Rightarrow> impact option \<times> pyfloat \<Rightarrow> py_error + (impact option \<times> pyfloat)"
where
  "closest_loop energy [] st = Inr st"
| "closest_loop energy (imp # rest) (closest, min_ratio_diff) =
     (if 0 < energy_mt imp then
        bind_err (ratio_distance energy (energy_mt imp)) (\<lambda>d.
          if flt d min_ratio_diff then closest_loop energy rest (Some imp, d)
          else closest_loop energy rest (closest, min_ratio_diff))
      else closest_loop energy rest (closest, min_ratio_diff))"

text \<open>
  Sorting, the loop and the fallback \<^verbatim>\<open>if not closest: closest = HISTORICAL_IMPACTS[0]\<close>.
  \<^verbatim>\<open>sorted\<close> is stable, as \<open>sort_key\<close> is.
\<close>

definition select_closest :: "pyfloat \<Rightarrow> py_error + impact" where
  "select_closest energy =
     bind_err (closest_loop energy (sort_key energy_mt HISTORICAL_IMPACTS) (None, PosInf))
       (\<lambda>(closest, min_ratio_diff).
          Inr (case closest of None \<Rightarrow> HISTORICAL_IMPACTS ! 0 | Some c \<Rightarrow> c))"

text \<open>
  \<^verbatim>\<open>ratio = energy_mt / closest['energy_mt'] if closest['energy_mt'] > 0 else 0\<close>
\<close>

definition comparison_ratio :: "pyfloat \<Rightarrow> impact \<Rightarrow> py_error + pyfloat" where
  "comparison_ratio energy closest =
     (if 0 < energy_mt closest then fdiv energy (Finite (energy_mt closest))
      else Inr (Finite 0))"

text \<open>The chain of \<^verbatim>\<open>if\<close>/\<^verbatim>\<open>elif\<close> that builds the comparison message.\<close>

definition comparison_text_of :: "pyfloat \<Rightarrow> string \<Rightarrow> py_error + string" where
  "comparison_text_of ratio nm =
     (if flt ratio (Finite (1 / 100)) then Inr (''much smaller than '' @ nm)
      else if flt ratio (Finite (1 / 10)) then
        bind_err (fdiv (Finite 1) ratio) (\<lambda>q.
        bind_err (py_int q) (\<lambda>n.
          Inr (''about 1/'' @ show_int n @ '' the energy of '' @ nm)))
      else if flt ratio (Finite (5 / 10)) then
        Inr (''about '' @ format_percent 0 ratio @ '' the energy of '' @ nm)
      else if flt ratio (Finite 2) then Inr (''comparable to '' @ nm)
      else if flt ratio (Finite 10) then
        Inr (''about '' @ format_fixed 1 ratio @ ''x '' @ nm)
      else if flt ratio (Finite 100) then
        bind_err (py_int ratio) (\<lambda>n. Inr (''about '' @ show_int n @ ''x '' @ nm))
      else Inr (''vastly larger than '' @ nm))"

definition hiroshima_energy :: real where
  "hiroshima_energy = 15 / 1000"

text \<open>
  \<^verbatim>\<open>find_closest_comparison(energy_mt, crater_km=None)\<close>. The result is \<open>Inr None\<close>
  for \<^verbatim>\<open>return None\<close>, \<open>Inr (Some r)\<close> for the returned dictionary and \<open>Inl err\<close>
  for an exception that leaves the function.
\<close>

definition find_closest_comparison ::
  "pyfloat \<Rightarrow> pyfloat option \<Rightarrow> py_error + comparison option"
where
  "find_closest_comparison energy crater_km =
     (if fle energy (Finite 0) then Inr None
      else
        bind_err (select_closest energy) (\<lambda>closest.
        bind_err (comparison_ratio energy closest) (\<lambda>ratio.
        bind_err (comparison_text_of ratio (name closest)) (\<lambda>text.
        bind_err (fdiv energy (Finite hiroshima_energy)) (\<lambda>h.
        bind_err (py_int h) (\<lambda>n.
          Inr (Some \<lparr> closest_impact = closest, energy_ratio = ratio,
                      comparison_text = text, hiroshima_equivalent = h,
                      hiroshima_text =
                        ''Equivalent to '' @ format_commas n @ '' Hiroshima bombs'' \<rparr>)))))))"

section \<open>The unit helpers of the API server\<close>














section \<open>Facts about the float operations\<close>

lemma float_overflow_bound_large: "10 ^ 308 < float_overflow_bound"
  by (simp add: float_overflow_bound_def)

lemma fl_in_range: "\<bar>x\<bar> < float_overflow_bound \<Longrightarrow> fl x = Finite x"
  by (auto simp: fl_def)

lemma fl_not_NaN: "fl x \<noteq> NaN"
  by (simp add: fl_def)

lemma bind_err_Inr: "bind_err (Inr x) f = f x"
  by (simp add: bind_err_def)

lemma bind_err_Inl: "bind_err (Inl e) f = Inl e"
  by (simp add: bind_err_def)

lemma fdiv_nonzero: "c \<noteq> 0 \<Longrightarrow> fdiv a (Finite c) = Inr (ieee_div a (Finite c))"
  by (simp add: fdiv_def)

lemma fle_refl: "a \<noteq> NaN \<Longrightarrow> fle a a"
  by (cases a) auto

lemma fle_trans: "fle a b \<Longrightarrow> fle b c \<Longrightarrow> fle a c"
  by (cases a; cases b; cases c) auto

lemma flt_imp_fle: "flt a b \<Longrightarrow> fle a b"
  by (cases a; cases b) auto

lemma not_flt_fle: "a \<noteq> NaN \<Longrightarrow> b \<noteq> NaN \<Longrightarrow> \<not> flt a b \<Longrightarrow> fle b a"
  by (cases a; cases b) auto

lemma flt_not_fle: "flt a b \<Longrightarrow> \<not> fle b a"
  by (cases a; cases b) auto

lemma ieee_div_not_NaN: "a \<noteq> NaN \<Longrightarrow> ieee_div a (Finite c) \<noteq> NaN"
  by (cases a) (auto simp: fl_not_NaN)

lemma ratio_diff_not_NaN: "r \<noteq> NaN \<Longrightarrow> ratio_diff r \<noteq> NaN"
  by (cases r) (auto simp: ratio_diff_def fl_def)

lemma ratio_distance_pos: "c \<noteq> 0 \<Longrightarrow> ratio_distance e c = Inr (distance_to e c)"
  by (simp add: ratio_distance_def fdiv_nonzero bind_err_Inr distance_to_def)

lemma distance_to_not_NaN: "e \<noteq> NaN \<Longrightarrow> distance_to e c \<noteq> NaN"
  by (simp add: distance_to_def ieee_div_not_NaN ratio_diff_not_NaN)

section \<open>The selection loop keeps the least distance\<close>

lemma closest_loop_total: "\<exists>st'. closest_loop e xs st = Inr st'"
proof (induction xs arbitrary: st)
  case Nil
  show ?case by simp
next
  case (Cons x xs)
  obtain cl m where st: "st = (cl, m)" by (cases st)
  show ?case
    using Cons.IH [of "(Some x, distance_to e (energy_mt x))"] Cons.IH [of "(cl, m)"]
    by (simp add: st ratio_distance_pos bind_err_Inr)
qed

lemma closest_loop_min:
  assumes "e \<noteq> NaN" "m \<noteq> NaN"
    and "closest_loop e xs (cl, m) = Inr (cl', m')"
  shows "m' \<noteq> NaN \<and> fle m' m \<and>
         (\<forall>x\<in>set xs. 0 < energy_mt x \<longrightarrow> fle m' (distance_to e (energy_mt x))) \<and>
         ((cl' = cl \<and> m' = m) \<or>
          (\<exists>x\<in>set xs. cl' = Some x \<and> 0 < energy_mt x \<and> m' = distance_to e (energy_mt x)))"
  using assms
proof (induction xs arbitrary: cl m)
  case Nil
  then show ?case by (simp add: fle_refl)
next
  case (Cons x xs)
  let ?d = "distance_to e (energy_mt x)"
  show ?case
  proof (cases "0 < energy_mt x \<and> flt ?d m")
    case True
    then have run: "closest_loop e xs (Some x, ?d) = Inr (cl', m')"
      using Cons.prems(3) by (simp add: ratio_distance_pos bind_err_Inr)
    have dn: "?d \<noteq> NaN" using Cons.prems(1) by (rule distance_to_not_NaN)
    note ih = Cons.IH [OF Cons.prems(1) dn run]
    have "fle m' m" using ih True flt_imp_fle fle_trans by blast
    moreover have "fle m' ?d" using ih by blast
    ultimately show ?thesis using ih True by auto
  next
    case False
    then have run: "closest_loop e xs (cl, m) = Inr (cl', m')"
      using Cons.prems(3) by (auto simp: ratio_distance_pos bind_err_Inr split: if_splits)
    note ih = Cons.IH [OF Cons.prems(1) Cons.prems(2) run]
    have "0 < energy_mt x \<Longrightarrow> fle m' ?d"
    proof -
      assume pos: "0 < energy_mt x"
      then have "\<not> flt ?d m" using False by simp
      then have "fle m ?d"
        using not_flt_fle distance_to_not_NaN Cons.prems(1,2) by blast
      then show "fle m' ?d" using ih fle_trans by blast
    qed
    then show ?thesis using ih by auto
  qed
qed

lemma catalogue_positive: "\<forall>c\<in>set HISTORICAL_IMPACTS. 0 < energy_mt c"
  by (simp add: HISTORICAL_IMPACTS_def chicxulub_def vredefort_def sudbury_def popigai_def
      barringer_def tunguska_def chelyabinsk_def hiroshima_def)

lemma catalogue_first: "HISTORICAL_IMPACTS ! 0 = chicxulub"
  by (simp add: HISTORICAL_IMPACTS_def)

lemma chicxulub_in_catalogue: "chicxulub \<in> set HISTORICAL_IMPACTS"
  by (simp add: HISTORICAL_IMPACTS_def)

lemma fle_PosInf_left: "d \<noteq> NaN \<Longrightarrow> fle PosInf d \<Longrightarrow> d = PosInf"
  by (cases d) auto

lemma select_closest_min:
  assumes "e \<noteq> NaN"
  shows "\<exists>sel. select_closest e = Inr sel \<and> sel \<in> set HISTORICAL_IMPACTS \<and> 0 < energy_mt sel \<and>
           (\<forall>c\<in>set HISTORICAL_IMPACTS. 0 < energy_mt c \<longrightarrow>
              fle (distance_to e (energy_mt sel)) (distance_to e (energy_mt c)))"
proof -
  let ?xs = "sort_key energy_mt HISTORICAL_IMPACTS"
  obtain cl' m' where run: "closest_loop e ?xs (None, PosInf) = Inr (cl', m')"
    using closest_loop_total [of e ?xs "(None, PosInf)"] by auto
  have inv: "m' \<noteq> NaN \<and> fle m' PosInf \<and>
         (\<forall>x\<in>set ?xs. 0 < energy_mt x \<longrightarrow> fle m' (distance_to e (energy_mt x))) \<and>
         ((cl' = None \<and> m' = PosInf) \<or>
          (\<exists>x\<in>set ?xs. cl' = Some x \<and> 0 < energy_mt x \<and> m' = distance_to e (energy_mt x)))"
    using closest_loop_min [OF assms _ run] by simp
  have sel: "select_closest e = Inr (case cl' of None \<Rightarrow> HISTORICAL_IMPACTS ! 0 | Some c \<Rightarrow> c)"
    by (simp add: select_closest_def run bind_err_Inr)
  show ?thesis
  proof (cases cl')
    case None
    then have m': "m' = PosInf" using inv by auto
    have all_inf: "distance_to e (energy_mt c) = PosInf" if "c \<in> set HISTORICAL_IMPACTS" for c
    proof -
      have "0 < energy_mt c" using that catalogue_positive by blast
      then have "fle PosInf (distance_to e (energy_mt c))" using inv that m' by simp
      then show ?thesis using fle_PosInf_left distance_to_not_NaN assms by blast
    qed
    show ?thesis
      using sel None catalogue_first chicxulub_in_catalogue catalogue_positive all_inf
      by auto
  next
    case (Some x)
    then show ?thesis using inv sel by auto
  qed
qed

section \<open>The message of each bucket\<close>

lemma trunc_nonneg: "0 \<le> x \<Longrightarrow> trunc_toward_zero x = \<lfloor>x\<rfloor>"
  by (simp add: trunc_toward_zero_def)

lemma length_show_nat_digit: "n < 10 \<Longrightarrow> length (show_nat n) = 1"
  by (simp add: show_nat.simps)

lemma zero_pad_digit: "zero_pad (Suc 0) (show_nat (n mod 10)) = show_nat (n mod 10)"
  by (simp add: zero_pad_def length_show_nat_digit)

lemma below_overflow: "x \<le> 10 ^ 16 \<Longrightarrow> x < float_overflow_bound"
proof -
  have "(10::real) ^ 16 < 10 ^ 308" by simp
  then show "x \<le> 10 ^ 16 \<Longrightarrow> x < float_overflow_bound"
    using float_overflow_bound_large by linarith
qed

lemma fl_small: "\<bar>x\<bar> \<le> 10 ^ 16 \<Longrightarrow> fl x = Finite x"
  by (intro fl_in_range below_overflow)

lemma text_much_smaller:
  "flt ratio (Finite (1 / 100)) \<Longrightarrow>
   comparison_text_of ratio nm = Inr (''much smaller than '' @ nm)"
  by (simp add: comparison_text_of_def)

lemma text_fraction:
  assumes "1 / 100 \<le> x" "x < 1 / 10"
  shows "comparison_text_of (Finite x) nm =
           Inr (''about 1/'' @ show_int \<lfloor>1 / x\<rfloor> @ '' the energy of '' @ nm)"
proof -
  have pos: "0 < x" using assms by simp
  have "1 / x \<le> 100" using assms pos by (simp add: field_simps)
  moreover have "0 \<le> 1 / x" using pos by simp
  ultimately have "fl (1 / x) = Finite (1 / x)" by (intro fl_small) simp
  then show ?thesis
    using assms pos by (simp add: comparison_text_of_def fdiv_def bind_err_Inr trunc_nonneg)
qed

lemma text_percent:
  assumes "1 / 10 \<le> x" "x < 1 / 2"
  shows "comparison_text_of (Finite x) nm =
           Inr (''about '' @ show_nat (round_half_even (x * 100)) @ ''% the energy of '' @ nm)"
proof -
  have "fl (x * 100) = Finite (x * 100)" using assms by (intro fl_small) simp
  then show ?thesis
    using assms by (simp add: comparison_text_of_def format_percent_def format_fixed_def)
qed

lemma text_comparable:
  "\<not> flt ratio (Finite (1 / 2)) \<Longrightarrow> flt ratio (Finite 2) \<Longrightarrow>
   comparison_text_of ratio nm = Inr (''comparable to '' @ nm)"
  by (cases ratio) (auto simp: comparison_text_of_def)

lemma text_times_fixed:
  assumes "2 \<le> x" "x < 10"
  shows "comparison_text_of (Finite x) nm =
           Inr (''about '' @ show_nat (round_half_even (x * 10) div 10) @ ''.'' @
                show_nat (round_half_even (x * 10) mod 10) @ ''x '' @ nm)"
  using assms by (simp add: comparison_text_of_def format_fixed_def zero_pad_digit Let_def)

lemma text_times_int:
  assumes "10 \<le> x" "x < 100"
  shows "comparison_text_of (Finite x) nm = Inr (''about '' @ show_int \<lfloor>x\<rfloor> @ ''x '' @ nm)"
  using assms by (simp add: comparison_text_of_def bind_err_Inr trunc_nonneg)

lemma text_vastly_larger:
  "\<not> flt ratio (Finite 100) \<Longrightarrow> ratio \<noteq> NaN \<Longrightarrow>
   comparison_text_of ratio nm = Inr (''vastly larger than '' @ nm)"
  by (cases ratio) (auto simp: comparison_text_of_def)

lemma comparison_text_of_total: "\<exists>s. comparison_text_of ratio nm = Inr s"
proof (cases ratio)
  case (Finite x)
  consider "x < 1/100" | "1/100 \<le> x \<and> x < 1/10" | "1/10 \<le> x \<and> x < 1/2" | "1/2 \<le> x \<and> x < 2"
    | "2 \<le> x \<and> x < 10" | "10 \<le> x \<and> x < 100" | "100 \<le> x" by linarith
  then show ?thesis
  proof cases
    case 1 then show ?thesis using Finite text_much_smaller by simp
  next
    case 2 then show ?thesis using Finite text_fraction by simp
  next
    case 3 then show ?thesis using Finite text_percent by simp
  next
    case 4 then show ?thesis using Finite text_comparable by simp
  next
    case 5 then show ?thesis using Finite text_times_fixed by simp
  next
    case 6 then show ?thesis using Finite text_times_int by simp
  next
    case 7 then show ?thesis using Finite text_vastly_larger by simp
  qed
qed (simp_all add: comparison_text_of_def)

section \<open>The catalogue, sorted and evaluated\<close>

lemma catalogue_energy:
  "energy_mt chicxulub = 100000000000" "energy_mt vredefort = 500000000000"
  "energy_mt sudbury = 60000000000" "energy_mt popigai = 30000000000"
  "energy_mt barringer = 10" "energy_mt tunguska = 15"
  "energy_mt chelyabinsk = 5 / 10" "energy_mt hiroshima = 15 / 1000"
  by (simp_all add: chicxulub_def vredefort_def sudbury_def popigai_def
      barringer_def tunguska_def chelyabinsk_def hiroshima_def)

lemma catalogue_name:
  "name chicxulub = ''Chicxulub Impact''" "name tunguska = ''Tunguska Event''"
  by (simp_all add: chicxulub_def tunguska_def)

lemma sorted_catalogue:
  "sort_key energy_mt HISTORICAL_IMPACTS =
     [hiroshima, chelyabinsk, barringer, tunguska, popigai, sudbury, chicxulub, vredefort]"
  by (simp add: HISTORICAL_IMPACTS_def catalogue_energy)

lemma distance_to_finite:
  assumes "0 < c" "0 \<le> x" "x / c < float_overflow_bound"
  shows "distance_to (Finite x) c = Finite \<bar>1 - x / c\<bar>"
proof -
  have q: "0 \<le> x / c" using assms by simp
  have one: "1 < float_overflow_bound" using below_overflow [of 1] by simp
  have r: "fl (x / c) = Finite (x / c)" using q assms(3) by (intro fl_in_range) simp
  show ?thesis
  proof (cases "x / c \<le> 1")
    case True
    then have "fl (1 - x / c) = Finite (1 - x / c)" using q one by (intro fl_in_range) simp
    then show ?thesis using True r by (simp add: distance_to_def ratio_diff_def)
  next
    case False
    then have "fl (x / c - 1) = Finite (x / c - 1)" using assms(3) by (intro fl_in_range) simp
    then show ?thesis using False r by (simp add: distance_to_def ratio_diff_def)
  qed
qed

lemma find_closest_comparison_nonpositive:
  "fle e (Finite 0) \<Longrightarrow> find_closest_comparison e c = Inr None"
  by (simp add: find_closest_comparison_def)


lemma positive_not_le: "flt (Finite 0) e \<Longrightarrow> \<not> fle e (Finite 0)"
  by (cases e) auto

lemma positive_not_NaN: "flt (Finite 0) e \<Longrightarrow> e \<noteq> NaN"
  by (cases e) auto

lemma hiroshima_energy_nonzero: "hiroshima_energy \<noteq> 0"
  by (simp add: hiroshima_energy_def)

lemma find_closest_comparison_unfold:
  assumes "flt (Finite 0) e" and "select_closest e = Inr sel" and "0 < energy_mt sel"
    and "comparison_text_of (ieee_div e (Finite (energy_mt sel))) (name sel) = Inr text"
  shows "find_closest_comparison e c =
           bind_err (py_int (ieee_div e (Finite hiroshima_energy))) (\<lambda>n.
             Inr (Some \<lparr> closest_impact = sel,
                         energy_ratio = ieee_div e (Finite (energy_mt sel)),
                         comparison_text = text,
                         hiroshima_equivalent = ieee_div e (Finite hiroshima_energy),
                         hiroshima_text =
                           ''Equivalent to '' @ format_commas n @ '' Hiroshima bombs'' \<rparr>))"
  using assms positive_not_le [OF assms(1)] hiroshima_energy_nonzero
  by (simp add: find_closest_comparison_def comparison_ratio_def fdiv_nonzero bind_err_Inr)

lemma distance_to_eval:
  assumes "0 < c" "0 \<le> x" "x \<le> 10 ^ 16 * c"
  shows "distance_to (Finite x) c = Finite \<bar>1 - x / c\<bar>"
proof -
  have "x / c \<le> 10 ^ 16" using assms by (simp add: field_simps)
  then show ?thesis using assms by (intro distance_to_finite below_overflow)
qed

lemma select_closest_15: "select_closest (Finite 15) = Inr tunguska"
  by (simp add: select_closest_def sorted_catalogue catalogue_energy ratio_distance_pos
      distance_to_eval bind_err_Inr)


section \<open>The shape of a comparison result\<close>

lemma find_closest_comparison_shape:
  assumes "flt (Finite 0) e"
  shows "\<exists>sel text. select_closest e = Inr sel \<and> sel \<in> set HISTORICAL_IMPACTS \<and>
           0 < energy_mt sel \<and>
           (\<forall>c\<in>set HISTORICAL_IMPACTS. 0 < energy_mt c \<longrightarrow>
              fle (distance_to e (energy_mt sel)) (distance_to e (energy_mt c))) \<and>
           comparison_text_of (ieee_div e (Finite (energy_mt sel))) (name sel) = Inr text \<and>
           find_closest_comparison e c =
             bind_err (py_int (ieee_div e (Finite hiroshima_energy))) (\<lambda>n.
               Inr (Some \<lparr> closest_impact = sel,
                           energy_ratio = ieee_div e (Finite (energy_mt sel)),
                           comparison_text = text,
                           hiroshima_equivalent = ieee_div e (Finite hiroshima_energy),
                           hiroshima_text =
                             ''Equivalent to '' @ format_commas n @ '' Hiroshima bombs'' \<rparr>))"
proof -
  obtain sel where sel: "select_closest e = Inr sel" "sel \<in> set HISTORICAL_IMPACTS"
    "0 < energy_mt sel"
    "\<forall>c\<in>set HISTORICAL_IMPACTS. 0 < energy_mt c \<longrightarrow>
        fle (distance_to e (energy_mt sel)) (distance_to e (energy_mt c))"
    using select_closest_min [OF positive_not_NaN [OF assms]] by blast
  obtain msg where
    msg: "comparison_text_of (ieee_div e (Finite (energy_mt sel))) (name sel) = Inr msg"
    using comparison_text_of_total by blast
  show ?thesis
    using sel msg find_closest_comparison_unfold [OF assms sel(1) sel(3) msg] by blast
qed


lemma find_closest_comparison_result:
  assumes "flt (Finite 0) e" "find_closest_comparison e c = Inr (Some r)"
  shows "select_closest e = Inr (closest_impact r) \<and>
         energy_ratio r = ieee_div e (Finite (energy_mt (closest_impact r))) \<and>
         comparison_text_of (energy_ratio r) (name (closest_impact r)) = Inr (comparison_text r) \<and>
         hiroshima_equivalent r = ieee_div e (Finite hiroshima_energy) \<and>
         (\<exists>h. hiroshima_equivalent r = Finite h)"
proof -
  obtain sel msg where sh: "select_closest e = Inr sel"
    "comparison_text_of (ieee_div e (Finite (energy_mt sel))) (name sel) = Inr msg"
    "find_closest_comparison e c =
       bind_err (py_int (ieee_div e (Finite hiroshima_energy))) (\<lambda>n.
         Inr (Some \<lparr> closest_impact = sel,
                     energy_ratio = ieee_div e (Finite (energy_mt sel)),
                     comparison_text = msg,
                     hiroshima_equivalent = ieee_div e (Finite hiroshima_energy),
                     hiroshima_text =
                       ''Equivalent to '' @ format_commas n @ '' Hiroshima bombs'' \<rparr>))"
    using find_closest_comparison_shape [OF assms(1), of c] by blast
  show ?thesis
  proof (cases "ieee_div e (Finite hiroshima_energy)")
    case (Finite h)
    then show ?thesis using sh assms(2) by (auto simp: bind_err_Inr)
  qed (use sh assms(2) in \<open>simp_all add: bind_err_Inl\<close>)
qed

section \<open>The comparator selects the closest catalogue entry\<close>






section \<open>Energies beyond the float range\<close>

text \<open>
  Claim C2 says that \<^verbatim>\<open>find_closest_comparison\<close> returns \<^verbatim>\<open>None\<close> exactly for
  \<open>energy_mt \<le> 0\<close> and a comparison result for every \<open>energy_mt > 0\<close>. The first half is
  \<open>find_closest_comparison_nonpositive\<close>, and \<open>find_closest_comparison_returns\<close> gives a
  result for every finite positive energy whose quotient by 0.015 is a finite float. Beyond
  that the function returns nothing: for the positive energies \<^verbatim>\<open>float('inf')\<close> and
  \<^verbatim>\<open>1e307\<close> the quotient \<^verbatim>\<open>energy_mt / 0.015\<close> is infinite and
  \<^verbatim>\<open>int(hiroshima_equivalent)\<close> raises \<^verbatim>\<open>OverflowError\<close>.
\<close>
theorem comparison_raises_beyond_float_range:
  "flt (Finite 0) PosInf \<and> flt (Finite 0) (Finite (10 ^ 307)) \<and>
   find_closest_comparison PosInf crater_km = Inl OverflowError \<and>
   find_closest_comparison (Finite (10 ^ 307)) crater_km = Inl OverflowError"
proof -
  have a: "flt (Finite 0) PosInf" by simp
  have b: "flt (Finite 0) (Finite (10 ^ 307))" by simp
  have "fl (10 ^ 307 / hiroshima_energy) = PosInf"
    by (simp add: fl_def hiroshima_energy_def float_overflow_bound_def)
  then have "find_closest_comparison (Finite (10 ^ 307)) crater_km = Inl OverflowError"
    using find_closest_comparison_shape [OF b, of crater_km] by (auto simp: bind_err_Inl)
  moreover have "find_closest_comparison PosInf crater_km = Inl OverflowError"
    using find_closest_comparison_shape [OF a, of crater_km]
    by (auto simp: bind_err_Inl hiroshima_energy_def)
  ultimately show ?thesis using a b by simp
qed

section \<open>The two reference energies\<close>

text \<open>
  Claim C3. \<^verbatim>\<open>find_closest_comparison(15)\<close> returns a result whose \<^verbatim>\<open>closest_impact\<close> is
  the Tunguska record, whose \<^verbatim>\<open>energy_ratio\<close> is 1.0 and whose \<^verbatim>\<open>comparison_text\<close> is
  "comparable to Tunguska Event".
\<close>
theorem tunguska_energy_matches_tunguska:
  "\<exists>r. find_closest_comparison (Finite 15) None = Inr (Some r) \<and>
       closest_impact r = tunguska \<and> energy_ratio r = Finite 1 \<and>
       comparison_text r = ''comparable to Tunguska Event''"
proof -
  have pos: "flt (Finite 0) (Finite 15)" by simp
  have ratio: "ieee_div (Finite 15) (Finite (energy_mt tunguska)) = Finite 1"
    by (simp add: catalogue_energy fl_small)
  have msg: "comparison_text_of (ieee_div (Finite 15) (Finite (energy_mt tunguska))) (name tunguska)
               = Inr ''comparable to Tunguska Event''"
    unfolding ratio catalogue_name by (simp add: text_comparable)
  have h: "ieee_div (Finite 15) (Finite hiroshima_energy) = Finite 1000"
    by (simp add: hiroshima_energy_def fl_small)
  have tpos: "0 < energy_mt tunguska" by (simp add: catalogue_energy)
  note eq = find_closest_comparison_unfold [OF pos select_closest_15 tpos msg, of None,
      unfolded h ratio]
  show ?thesis by (simp add: eq bind_err_Inr)
qed



section \<open>The crater diameter\<close>

text \<open>
  Claim C9. The result of \<^verbatim>\<open>find_closest_comparison\<close> does not depend on the argument
  \<^verbatim>\<open>crater_km\<close>: any two values of it give the same outcome for the same energy.
\<close>
theorem crater_km_is_ignored:
  "find_closest_comparison energy c1 = find_closest_comparison energy c2"
  by (simp add: find_closest_comparison_def)

section \<open>The comparison message\<close>






section \<open>The fallback of the selection loop\<close>

lemma closest_loop_infinite:
  "closest_loop PosInf xs (None, PosInf) = Inr (None, PosInf)"
proof (induction xs)
  case Nil
  show ?case by simp
next
  case (Cons x xs)
  have "0 < energy_mt x \<Longrightarrow> distance_to PosInf (energy_mt x) = PosInf"
    by (simp add: distance_to_def ratio_diff_def)
  then show ?case using Cons by (simp add: ratio_distance_pos bind_err_Inr)
qed

lemma vredefort_in_catalogue: "vredefort \<in> set HISTORICAL_IMPACTS"
  by (simp add: HISTORICAL_IMPACTS_def)

lemma closest_loop_finite:
  assumes "0 < x" "x < float_overflow_bound"
  shows "\<exists>c d. closest_loop (Finite x) (sort_key energy_mt HISTORICAL_IMPACTS) (None, PosInf)
                 = Inr (Some c, d)"
proof -
  let ?xs = "sort_key energy_mt HISTORICAL_IMPACTS"
  obtain cl m where run: "closest_loop (Finite x) ?xs (None, PosInf) = Inr (cl, m)"
    using closest_loop_total [of "Finite x" ?xs "(None, PosInf)"] by auto
  have inv: "\<forall>c\<in>set ?xs. 0 < energy_mt c \<longrightarrow> fle m (distance_to (Finite x) (energy_mt c))"
    and alt: "(cl = None \<and> m = PosInf) \<or> (\<exists>c\<in>set ?xs. cl = Some c)"
    using closest_loop_min [OF _ _ run] by auto
  have "x / energy_mt vredefort \<le> x" using assms(1) by (simp add: catalogue_energy field_simps)
  then have "x / energy_mt vredefort < float_overflow_bound" using assms(2) by linarith
  then have "distance_to (Finite x) (energy_mt vredefort)
               = Finite \<bar>1 - x / energy_mt vredefort\<bar>"
    using assms(1) by (intro distance_to_finite) (simp_all add: catalogue_energy)
  moreover have "0 < energy_mt vredefort" by (simp add: catalogue_energy)
  then have "fle m (distance_to (Finite x) (energy_mt vredefort))"
    using inv vredefort_in_catalogue by simp
  ultimately have "m \<noteq> PosInf" by auto
  then show ?thesis using alt run by auto
qed

lemma closest_loop_member:
  "closest_loop e xs (cl, m) = Inr (Some c, m') \<Longrightarrow> cl = Some c \<or> c \<in> set xs"
proof (induction xs arbitrary: cl m)
  case Nil
  then show ?case by simp
next
  case (Cons x xs)
  then show ?case
    by (fastforce simp: ratio_distance_pos bind_err_Inr split: if_splits)
qed

lemma select_closest_positive:
  assumes "select_closest e = Inr sel"
  shows "sel \<in> set HISTORICAL_IMPACTS \<and> 0 < energy_mt sel"
proof -
  let ?xs = "sort_key energy_mt HISTORICAL_IMPACTS"
  obtain cl m where run: "closest_loop e ?xs (None, PosInf) = Inr (cl, m)"
    using closest_loop_total [of e ?xs "(None, PosInf)"] by auto
  have sel: "sel = (case cl of None \<Rightarrow> HISTORICAL_IMPACTS ! 0 | Some c \<Rightarrow> c)"
    using assms by (simp add: select_closest_def run bind_err_Inr)
  have "sel \<in> set HISTORICAL_IMPACTS"
  proof (cases cl)
    case None
    then show ?thesis using sel catalogue_first chicxulub_in_catalogue by simp
  next
    case (Some c)
    then show ?thesis using closest_loop_member [of e ?xs None PosInf c m] run sel by simp
  qed
  then show ?thesis using catalogue_positive by blast
qed

text \<open>
  Claim C10 says that for every \<open>energy_mt > 0\<close> the loop assigns a closest record, so that
  the fallback to \<^verbatim>\<open>HISTORICAL_IMPACTS[0]\<close> cannot be reached. The energy
  \<^verbatim>\<open>float('inf')\<close> is positive, every distance is then infinite, no distance is below the
  initial \<^verbatim>\<open>min_ratio_diff = float('inf')\<close>, and the loop ends with \<^verbatim>\<open>closest\<close> still
  \<^verbatim>\<open>None\<close>: the fallback is taken.
\<close>
theorem fallback_reached_at_infinite_energy:
  "flt (Finite 0) PosInf \<and>
   closest_loop PosInf (sort_key energy_mt HISTORICAL_IMPACTS) (None, PosInf) = Inr (None, PosInf) \<and>
   select_closest PosInf = Inr (HISTORICAL_IMPACTS ! 0)"
  by (simp add: select_closest_def closest_loop_infinite bind_err_Inr)

text \<open>
  Claim C10, amended. The catalogue has eight entries, each with \<open>energy_mt > 0\<close>. For
  every finite float \<open>energy_mt > 0\<close> the selection loop assigns a closest record, so the
  fallback is not taken; for the infinite energy it assigns none. Whatever the energy is, the selected record has positive energy, so
  the ratio is always the quotient and never the \<open>0\<close> of the guard's other branch.
\<close>
theorem loop_assigns_for_finite_energy:
  "length HISTORICAL_IMPACTS = 8 \<and>
   (\<forall>c\<in>set HISTORICAL_IMPACTS. 0 < energy_mt c) \<and>
   (\<forall>x. 0 < x \<and> x < float_overflow_bound \<longrightarrow>
      (\<exists>c d. closest_loop (Finite x) (sort_key energy_mt HISTORICAL_IMPACTS) (None, PosInf)
                = Inr (Some c, d))) \<and>
   closest_loop PosInf (sort_key energy_mt HISTORICAL_IMPACTS) (None, PosInf)
     = Inr (None, PosInf) \<and>
   (\<forall>e sel. select_closest e = Inr sel \<longrightarrow>
      0 < energy_mt sel \<and> comparison_ratio e sel = fdiv e (Finite (energy_mt sel)))"
proof (intro conjI allI impI)
  show "length HISTORICAL_IMPACTS = 8" by (simp add: HISTORICAL_IMPACTS_def)
  show "\<forall>c\<in>set HISTORICAL_IMPACTS. 0 < energy_mt c" by (rule catalogue_positive)
  show "closest_loop PosInf (sort_key energy_mt HISTORICAL_IMPACTS) (None, PosInf)
          = Inr (None, PosInf)"
    by (rule closest_loop_infinite)
next
  fix x :: real
  assume "0 < x \<and> x < float_overflow_bound"
  then show "\<exists>c d. closest_loop (Finite x) (sort_key energy_mt HISTORICAL_IMPACTS) (None, PosInf)
                = Inr (Some c, d)"
    using closest_loop_finite by blast
next
  fix e sel
  assume s: "select_closest e = Inr sel"
  show "0 < energy_mt sel" using select_closest_positive [OF s] by blast
  then show "comparison_ratio e sel = fdiv e (Finite (energy_mt sel))"
    by (simp add: comparison_ratio_def)
qed

theorem loop_assigns_for_finite_energy_witness:
  "(0::real) < 15 \<and> 15 < float_overflow_bound \<and> tunguska \<in> set HISTORICAL_IMPACTS \<and>
   0 < energy_mt tunguska \<and>
   (\<exists>c d. closest_loop (Finite 15) (sort_key energy_mt HISTORICAL_IMPACTS) (None, PosInf)
             = Inr (Some c, d)) \<and>
   select_closest (Finite 15) = Inr tunguska \<and>
   comparison_ratio (Finite 15) tunguska = fdiv (Finite 15) (Finite (energy_mt tunguska))"
proof -
  have a: "(0::real) < 15 \<and> 15 < float_overflow_bound" by (simp add: below_overflow)
  have b: "tunguska \<in> set HISTORICAL_IMPACTS" by (simp add: HISTORICAL_IMPACTS_def)
  note main = loop_assigns_for_finite_energy
  show ?thesis using main a b select_closest_15 by blast
qed

section \<open>The asymmetry of the distance\<close>

text \<open>
  Claim C6 says that a candidate of energy \<open>s / r\<close> is strictly closer to \<open>s\<close> than a
  candidate of energy \<open>s * r\<close>. For \<open>s = 1\<close> and \<open>r = 10\<close> the candidate \<open>1 / 10\<close> has
  ratio 10 and distance 9, the candidate 10 has ratio \<open>1 / 10\<close> and distance \<open>9 / 10\<close>, and 9
  is not below \<open>9 / 10\<close>.
\<close>
theorem smaller_candidate_is_farther_counterexample:
  "(0::real) < 1 \<and> (1::real) < 10 \<and>
   ratio_distance (Finite 1) (1 / 10) = Inr (Finite 9) \<and>
   ratio_distance (Finite 1) (1 * 10) = Inr (Finite (9 / 10)) \<and>
   \<not> flt (Finite 9) (Finite (9 / 10))"
  by (simp add: ratio_distance_pos distance_to_eval)

text \<open>
  Claim C6, amended. The distance favours the larger candidate: for every \<open>s > 0\<close> and
  \<open>r > 1\<close>, the candidate of energy \<open>s * r\<close> has distance \<open>1 - 1 / r\<close>, strictly below the
  distance of the candidate of energy \<open>s / r\<close> (which is \<open>r - 1\<close> while \<open>r\<close> is in the float
  range). So whenever the catalogue holds both, the record selected for the energy \<open>s\<close> does
  not have the energy \<open>s / r\<close>: the smaller one of the pair is never the \<^verbatim>\<open>closest_impact\<close>.
\<close>
theorem larger_candidate_is_closer:
  assumes "0 < s" "1 < r"
  shows "(\<exists>d_small d_large.
            ratio_distance (Finite s) (s / r) = Inr d_small \<and>
            ratio_distance (Finite s) (s * r) = Inr d_large \<and>
            d_large = Finite (1 - 1 / r) \<and>
            (r < float_overflow_bound \<longrightarrow> d_small = Finite (r - 1)) \<and>
            flt d_large d_small) \<and>
         (\<forall>p\<in>set HISTORICAL_IMPACTS. \<forall>q\<in>set HISTORICAL_IMPACTS.
            energy_mt p = s / r \<and> energy_mt q = s * r \<longrightarrow>
            (\<exists>sel. select_closest (Finite s) = Inr sel \<and> energy_mt sel \<noteq> s / r \<and>
               (\<forall>res. find_closest_comparison (Finite s) crater_km = Inr (Some res) \<longrightarrow>
                  closest_impact res \<noteq> p)))"
proof -
  have rpos: "0 < r" using assms by simp
  have small_ne: "s / r \<noteq> 0" and large_ne: "s * r \<noteq> 0" using assms rpos by auto
  have q1: "s / (s / r) = r" and q2: "s / (s * r) = 1 / r" using assms by (simp_all add: field_simps)
  have inv_lt: "1 / r < 1" using assms by simp
  have inv_pos: "0 < 1 / r" using rpos by simp
  have one: "1 < float_overflow_bound" using below_overflow [of 1] by simp
  have large: "distance_to (Finite s) (s * r) = Finite (1 - 1 / r)"
  proof -
    have b2: "s / (s * r) < float_overflow_bound"
      unfolding q2 using inv_lt one by linarith
    have "distance_to (Finite s) (s * r) = Finite \<bar>1 - s / (s * r)\<bar>"
      by (rule distance_to_finite [OF mult_pos_pos [OF assms(1) rpos] less_imp_le [OF assms(1)] b2])
    then show ?thesis unfolding q2 using inv_lt by simp
  qed
  have small_fin: "distance_to (Finite s) (s / r) = Finite (r - 1)" if "r < float_overflow_bound"
  proof -
    have b1: "s / (s / r) < float_overflow_bound"
      unfolding q1 using that .
    have "distance_to (Finite s) (s / r) = Finite \<bar>1 - s / (s / r)\<bar>"
      by (rule distance_to_finite [OF divide_pos_pos [OF assms(1) rpos] less_imp_le [OF assms(1)] b1])
    then show ?thesis unfolding q1 using assms(2) by simp
  qed
  have small_inf: "distance_to (Finite s) (s / r) = PosInf" if "float_overflow_bound \<le> r"
  proof -
    have "ieee_div (Finite s) (Finite (s / r)) = fl r" by (simp only: ieee_div.simps q1)
    moreover have "fl r = PosInf" using that by (simp add: fl_def)
    ultimately show ?thesis by (simp add: distance_to_def ratio_diff_def)
  qed
  have lt: "flt (distance_to (Finite s) (s * r)) (distance_to (Finite s) (s / r))"
  proof (cases "r < float_overflow_bound")
    case True
    have "1 - 1 / r < r - 1"
    proof -
      have "0 < (r - 1) * (1 - 1 / r)" using assms(2) inv_lt by (intro mult_pos_pos) simp_all
      moreover have "(r - 1) * (1 - 1 / r) = (r - 1) - (1 - 1 / r)"
        using rpos by (simp add: field_simps)
      ultimately show ?thesis by linarith
    qed
    then show ?thesis using large small_fin [OF True] by simp
  next
    case False
    then show ?thesis using large small_inf by simp
  qed
  have first: "\<exists>d_small d_large.
            ratio_distance (Finite s) (s / r) = Inr d_small \<and>
            ratio_distance (Finite s) (s * r) = Inr d_large \<and>
            d_large = Finite (1 - 1 / r) \<and>
            (r < float_overflow_bound \<longrightarrow> d_small = Finite (r - 1)) \<and>
            flt d_large d_small"
    using large small_fin lt small_ne large_ne by (simp add: ratio_distance_pos)
  have second: "\<exists>sel. select_closest (Finite s) = Inr sel \<and> energy_mt sel \<noteq> s / r \<and>
               (\<forall>res. find_closest_comparison (Finite s) crater_km = Inr (Some res) \<longrightarrow>
                  closest_impact res \<noteq> p)"
    if p: "p \<in> set HISTORICAL_IMPACTS" and q: "q \<in> set HISTORICAL_IMPACTS"
      and e: "energy_mt p = s / r \<and> energy_mt q = s * r" for p q
  proof -
    have pos: "flt (Finite 0) (Finite s)" using assms by simp
    obtain sel where sel: "select_closest (Finite s) = Inr sel"
      "\<forall>c\<in>set HISTORICAL_IMPACTS. 0 < energy_mt c \<longrightarrow>
         fle (distance_to (Finite s) (energy_mt sel)) (distance_to (Finite s) (energy_mt c))"
      using select_closest_min [of "Finite s"] by auto
    have "0 < energy_mt q" using q catalogue_positive by blast
    then have le: "fle (distance_to (Finite s) (energy_mt sel)) (distance_to (Finite s) (s * r))"
      using sel(2) q e by auto
    have ne: "energy_mt sel \<noteq> s / r"
    proof
      assume "energy_mt sel = s / r"
      then have "fle (distance_to (Finite s) (s / r)) (distance_to (Finite s) (s * r))"
        using le by simp
      then show False using lt flt_not_fle by blast
    qed
    have "closest_impact res \<noteq> p"
      if "find_closest_comparison (Finite s) crater_km = Inr (Some res)" for res
      using find_closest_comparison_result [OF pos that] sel(1) ne e by auto
    then show ?thesis using sel(1) ne by blast
  qed
  show ?thesis using first second by blast
qed

theorem larger_candidate_is_closer_witness:
  "(0::real) < 10 ^ 6 \<and> (1::real) < 10 ^ 5 \<and>
   barringer \<in> set HISTORICAL_IMPACTS \<and> chicxulub \<in> set HISTORICAL_IMPACTS \<and>
   energy_mt barringer = 10 ^ 6 / 10 ^ 5 \<and> energy_mt chicxulub = 10 ^ 6 * 10 ^ 5 \<and>
   (\<exists>sel. select_closest (Finite (10 ^ 6)) = Inr sel \<and> energy_mt sel \<noteq> 10 ^ 6 / 10 ^ 5) \<and>
   (\<exists>d_small d_large.
      ratio_distance (Finite (10 ^ 6)) (10 ^ 6 / 10 ^ 5) = Inr d_small \<and>
      ratio_distance (Finite (10 ^ 6)) (10 ^ 6 * 10 ^ 5) = Inr d_large \<and>
      flt d_large d_small)"
proof -
  have a: "(0::real) < 10 ^ 6" and b: "(1::real) < 10 ^ 5" by simp_all
  have p: "barringer \<in> set HISTORICAL_IMPACTS" and q: "chicxulub \<in> set HISTORICAL_IMPACTS"
    by (simp_all add: HISTORICAL_IMPACTS_def)
  have e: "energy_mt barringer = 10 ^ 6 / 10 ^ 5 \<and> energy_mt chicxulub = 10 ^ 6 * 10 ^ 5"
    by (simp add: catalogue_energy)
  note main = larger_candidate_is_closer [OF a b, of None]
  have "\<exists>sel. select_closest (Finite (10 ^ 6)) = Inr sel \<and> energy_mt sel \<noteq> 10 ^ 6 / 10 ^ 5"
    using main p q e by blast
  moreover have "\<exists>d_small d_large.
      ratio_distance (Finite (10 ^ 6)) (10 ^ 6 / 10 ^ 5) = Inr d_small \<and>
      ratio_distance (Finite (10 ^ 6)) (10 ^ 6 * 10 ^ 5) = Inr d_large \<and>
      flt d_large d_small"
    using main by blast
  ultimately show ?thesis using a b p q e by blast
qed

section \<open>The unit helpers: conversion with a default\<close>





















end
